theory Spec2Isabelle
  imports
    Main
    "HOL-Library.Char_ord"
    "HOL-Library.List_Lexorder"
    "HOL-Library.Product_Lexorder"
begin

section \<open>The header-only templates of \<^verbatim>\<open>template_utils.h\<close>\<close>

text \<open>
  \<^verbatim>\<open>
  template<typename T> T max(T a, T b) { return (a > b) ? a : b; }
  template<typename T> T min(T a, T b) { return (a < b) ? a : b; }
  \<close>
  Both take their arguments by value and compare them once, with \<open>operator>\<close> for
  \<open>max\<close> and \<open>operator<\<close> for \<open>min\<close>. A totally ordered \<open>T\<close> is a type of class
  \<open>linorder\<close>. The names carry a suffix because \<open>max\<close> and \<open>min\<close> are constants of HOL.
\<close>

definition max_t :: "'a::linorder \<Rightarrow> 'a \<Rightarrow> 'a" where
  "max_t a b = (if a > b then a else b)"

definition min_t :: "'a::linorder \<Rightarrow> 'a \<Rightarrow> 'a" where
  "min_t a b = (if a < b then a else b)"

section \<open>The class \<^verbatim>\<open>example::DataProcessor\<close> of \<^verbatim>\<open>good_code.cpp\<close>\<close>

text \<open>
  The three private fields of the class, in their order of declaration:
  \<^verbatim>\<open>std::string name_; bool debug_; std::vector<std::string> data_;\<close>
  A record field cannot end in an underscore, so each field carries the suffix \<open>m\<close>
  (member). The vector is a list of strings, the back of the vector being the end of
  the list.
\<close>

record DataProcessor =
  name_m :: string
  debug_m :: bool
  data_m :: "string list"

text \<open>
  \<open>std::cout\<close> is the one object outside the class that a member function writes to.
  It is modelled by the characters written to it so far, and every function that may
  write takes that text and returns it extended.
\<close>

type_synonym ostream = string

text \<open>\<open>std::endl\<close> writes a newline (and flushes, which leaves no trace in the text).\<close>

definition endl :: string where
  "endl = [CHR 0x0A]"

text \<open>
  \<^verbatim>\<open>
  DataProcessor(const std::string& name, bool debug = false)
      : name_(name), debug_(debug) {}
  \<close>
  The member \<open>data_\<close> has no initializer in the list, so it is default-constructed: the
  empty vector. \<open>new_DataProcessor_default\<close> is the call that leaves \<open>debug\<close> out.
\<close>

definition new_DataProcessor :: "string \<Rightarrow> bool \<Rightarrow> DataProcessor" where
  "new_DataProcessor name debug = \<lparr>name_m = name, debug_m = debug, data_m = []\<rparr>"

definition new_DataProcessor_default :: "string \<Rightarrow> DataProcessor" where
  "new_DataProcessor_default name = new_DataProcessor name False"

text \<open>
  \<^verbatim>\<open>
  void add_data(const std::string& item) {
      data_.push_back(item);
      if (debug_) {
          std::cout << "Added item: " << item << std::endl;
      }
  }
  \<close>
  The state is the object together with \<open>std::cout\<close>. Running out of memory inside
  \<open>push_back\<close> is not modelled: lists are unbounded.
\<close>

definition add_data :: "string \<Rightarrow> DataProcessor \<times> ostream \<Rightarrow> DataProcessor \<times> ostream" where
  "add_data item s =
     (case s of (p, cout) \<Rightarrow>
        (p\<lparr>data_m := data_m p @ [item]\<rparr>,
         if debug_m p then cout @ ''Added item: '' @ item @ endl else cout))"

text \<open>
  \<^verbatim>\<open>
  size_t get_count() const { return data_.size(); }
  \<close>
  The size of a vector never exceeds its \<open>max_size()\<close>, which \<open>size_t\<close> can hold, so the
  returned \<open>size_t\<close> is the number of elements itself and never a wrapped value: a
  natural number. The function is \<open>const\<close>: it returns no new state.
\<close>

definition get_count :: "DataProcessor \<Rightarrow> nat" where
  "get_count p = length (data_m p)"

text \<open>
  A sequence of calls \<open>add_data(i\<^sub>1); ...; add_data(i\<^sub>n)\<close> on one object, the
  items given as a list in the order of the calls.
\<close>

fun add_data_calls :: "string list \<Rightarrow> DataProcessor \<times> ostream \<Rightarrow> DataProcessor \<times> ostream" where
  "add_data_calls [] s = s"
| "add_data_calls (item # items) s = add_data_calls items (add_data item s)"

section \<open>The Diagnostic Aggregator\<close>

text \<open>
  The repository's sources hold the fixtures that an analysis engine reads, not the
  engine. Its last stage, the Diagnostic Aggregator, has a contract that the
  specification states in full (sections 3 and 4.7), and the definitions of this section
  follow those words.
\<close>

text \<open>
  Modelled from the spec: the severity of a Finding, missing from the sources.
  "severity (Error/Warning/Info)".
\<close>

datatype severity = Error | Warning | Info

text \<open>
  Modelled from the spec: the source span of a Finding, missing from the sources.
  "a source span (start/end line-column)", with the file that the stable record
  \<open>{file, line, column, endLine, endColumn, ruleId, severity, message}\<close> of section 6
  puts beside it.
\<close>

record span =
  "file" :: string
  line :: nat
  column :: nat
  endLine :: nat
  endColumn :: nat

text \<open>
  Modelled from the spec: the Finding, missing from the sources. "Finding: {rule id,
  severity, message, primary span, optional related spans, a stable dedup key derived
  from (rule id, primary span, enclosing-function identity)}". The record holds the
  identity of the enclosing function, of a type \<open>'fn\<close> left open, and the key is
  computed from it by \<open>dedup_key\<close>.
\<close>

record 'fn Finding =
  ruleId :: string
  severity :: severity
  message :: string
  primary :: span
  related :: "span list"
  enclosing_function :: 'fn

text \<open>
  Modelled from the spec: the dedup key, missing from the sources. "a stable dedup key
  derived from (rule id, primary span, enclosing-function identity)": the triple itself.
\<close>

definition dedup_key :: "'fn Finding \<Rightarrow> string \<times> span \<times> 'fn" where
  "dedup_key f = (ruleId f, primary f, enclosing_function f)"

text \<open>
  Modelled from the spec: the tuple the Diagnostic Set is ordered by, missing from the
  sources. "sorted by (file, line, column, rule id)". Tuples compare lexicographically,
  strings as lists of characters.
\<close>

definition order_key :: "'fn Finding \<Rightarrow> string \<times> nat \<times> nat \<times> string" where
  "order_key f = (file (primary f), line (primary f), column (primary f), ruleId f)"

text \<open>
  Modelled from the spec: deduplication by dedup key, missing from the sources.
  "Deduplicates by dedup key". The findings are read in order; \<open>seen\<close> holds the keys
  already kept, and a finding whose key is in \<open>seen\<close> is dropped. Which of two findings
  with one key stays is left open by the specification ("last-writer-wins is
  irrelevant"); here it is the first.
\<close>

fun dedup :: "(string \<times> span \<times> 'fn) list \<Rightarrow> 'fn Finding list \<Rightarrow> 'fn Finding list" where
  "dedup seen [] = []"
| "dedup seen (f # fs) =
     (if dedup_key f \<in> set seen then dedup seen fs
      else f # dedup (dedup_key f # seen) fs)"

text \<open>
  Modelled from the spec: \<open>aggregate\<close>, missing from the sources. "aggregate(all
  findings) -> Diagnostic Set. Deduplicates by dedup key; sorts per the ordering
  invariant; does not filter by severity". The sort is the insertion sort \<open>sort_key\<close> of
  the list library.
\<close>

definition aggregate :: "'fn Finding list \<Rightarrow> 'fn Finding list" where
  "aggregate fs = sort_key order_key (dedup [] fs)"

section \<open>Properties of \<^verbatim>\<open>max\<close> and \<^verbatim>\<open>min\<close>\<close>

lemma max_t_cases: "max_t a b = a \<or> max_t a b = b"
  by (simp add: max_t_def)

lemma min_t_cases: "min_t a b = a \<or> min_t a b = b"
  by (simp add: min_t_def)

lemma max_t_upper: "a \<le> max_t a b \<and> b \<le> max_t a b"
  by (auto simp: max_t_def)

lemma min_t_lower: "min_t a b \<le> a \<and> min_t a b \<le> b"
  by (auto simp: min_t_def)

lemma max_t_commute: "max_t a b = max_t b a"
  by (auto simp: max_t_def)

lemma min_t_commute: "min_t a b = min_t b a"
  by (auto simp: min_t_def)

text \<open>On equal arguments each comparison is false, and both return the second argument.\<close>

lemma max_min_examples:
  "max_t (3::int) 5 = 5 \<and> max_t (5::int) 3 = 5 \<and> min_t (3::int) 5 = 3 \<and> min_t (5::int) 3 = 3
   \<and> max_t (4::int) 4 = 4 \<and> min_t (4::int) 4 = 4
   \<and> max_t ''ab'' ''b'' = ''b'' \<and> min_t ''ab'' ''b'' = ''ab''"
  by (simp add: max_t_def min_t_def)

text \<open>Both agree with the library's \<open>max\<close> and \<open>min\<close> on every total order.\<close>

lemma max_t_is_max: "max_t a b = max a b"
  by (auto simp: max_t_def max_def)

lemma min_t_is_min: "min_t a b = min a b"
  by (auto simp: min_t_def min_def)

text \<open>
  Claim C10. For every totally ordered type \<open>T\<close> and all values \<open>a\<close>, \<open>b\<close> of \<open>T\<close>, the
  template functions \<open>max\<close> and \<open>min\<close> each return one of their two arguments; \<open>max(a, b)\<close>
  is greater than or equal to both arguments and \<open>min(a, b)\<close> is less than or equal to
  both; both functions are commutative as value functions and idempotent.
\<close>

theorem max_min_template_laws:
  fixes a b :: "'a::linorder"
  shows "(max_t a b = a \<or> max_t a b = b)
       \<and> (min_t a b = a \<or> min_t a b = b)
       \<and> a \<le> max_t a b \<and> b \<le> max_t a b
       \<and> min_t a b \<le> a \<and> min_t a b \<le> b
       \<and> max_t a b = max_t b a
       \<and> min_t a b = min_t b a
       \<and> max_t a a = a
       \<and> min_t a a = a"
proof -
  have idem: "max_t a a = a" "min_t a a = a"
    by (simp_all add: max_t_def min_t_def)
  show ?thesis
    using max_t_cases [of a b] min_t_cases [of a b] max_t_upper [of a b]
      min_t_lower [of a b] max_t_commute [of a b] min_t_commute [of a b] idem
    by blast
qed

section \<open>Properties of \<^verbatim>\<open>DataProcessor\<close>\<close>

lemma add_data_fields:
  "fst (add_data item (p, cout)) = p\<lparr>data_m := data_m p @ [item]\<rparr>"
  by (simp add: add_data_def)

lemma add_data_cout:
  "snd (add_data item (p, cout)) =
     (if debug_m p then cout @ ''Added item: '' @ item @ endl else cout)"
  by (simp add: add_data_def)

lemma get_count_add_data:
  "get_count (fst (add_data item (p, cout))) = get_count p + 1"
  by (simp add: add_data_def get_count_def)

lemma get_count_add_data_calls:
  "get_count (fst (add_data_calls items s)) = get_count (fst s) + length items"
proof (induction items arbitrary: s)
  case Nil
  show ?case by simp
next
  case (Cons item items)
  obtain p cout where s: "s = (p, cout)"
    by (cases s)
  have "get_count (fst (add_data_calls (item # items) s)) =
        get_count (fst (add_data item s)) + length items"
    using Cons.IH [of "add_data item s"] by simp
  also have "\<dots> = get_count (fst s) + length (item # items)"
    using get_count_add_data [of item p cout] by (simp add: s)
  finally show ?case .
qed

lemma add_data_calls_data:
  "data_m (fst (add_data_calls items s)) = data_m (fst s) @ items"
proof (induction items arbitrary: s)
  case Nil
  show ?case by simp
next
  case (Cons item items)
  obtain p cout where s: "s = (p, cout)"
    by (cases s)
  show ?case
    using Cons.IH [of "add_data item s"] by (simp add: s add_data_def)
qed

text \<open>
  The calls of \<open>main\<close> in \<^verbatim>\<open>good_code.cpp\<close>: a processor built with \<open>debug = true\<close>,
  then \<open>add_data("item1")\<close> and \<open>add_data("item2")\<close>. The count printed afterwards
  is 2, and the two debug lines have been written.
\<close>

lemma main_calls:
  "add_data_calls [''item1'', ''item2''] (new_DataProcessor ''example'' True, []) = (p, cout)
   \<Longrightarrow> get_count p = 2
     \<and> data_m p = [''item1'', ''item2'']
     \<and> cout = ''Added item: item1'' @ endl @ ''Added item: item2'' @ endl"
  by (auto simp: add_data_def new_DataProcessor_def get_count_def)

text \<open>
  Claim C9. For every \<open>DataProcessor\<close> state and every string \<open>item\<close>, \<open>add_data(item)\<close>
  appends \<open>item\<close> to the \<open>data_\<close> list and so increases the value returned by
  \<open>get_count()\<close> by exactly one, while leaving the \<open>name_\<close> and \<open>debug_\<close> fields unchanged;
  consequently, after \<open>n\<close> calls of \<open>add_data\<close> on a freshly constructed
  \<open>DataProcessor\<close> (here the \<open>n\<close> items of the list \<open>items\<close>, whatever \<open>std::cout\<close> holds),
  \<open>get_count()\<close> returns \<open>n\<close>.
\<close>

theorem add_data_get_count:
  "data_m (fst (add_data item (p, cout))) = data_m p @ [item]
   \<and> get_count (fst (add_data item (p, cout))) = get_count p + 1
   \<and> name_m (fst (add_data item (p, cout))) = name_m p
   \<and> debug_m (fst (add_data item (p, cout))) = debug_m p
   \<and> get_count (fst (add_data_calls items (new_DataProcessor name debug, cout0))) = length items"
proof -
  have fresh: "get_count (new_DataProcessor name debug) = 0"
    by (simp add: get_count_def new_DataProcessor_def)
  have "get_count (fst (add_data_calls items (new_DataProcessor name debug, cout0))) = length items"
    using get_count_add_data_calls [of items "(new_DataProcessor name debug, cout0)"] fresh
    by simp
  moreover have "get_count (fst (add_data item (p, cout))) = get_count p + 1"
    by (rule get_count_add_data)
  moreover have "fst (add_data item (p, cout)) = p\<lparr>data_m := data_m p @ [item]\<rparr>"
    by (rule add_data_fields)
  ultimately show ?thesis
    by simp
qed

section \<open>Properties of the Diagnostic Aggregator\<close>

subsection \<open>Deduplication\<close>

lemma dedup_subset: "set (dedup seen fs) \<subseteq> set fs"
  by (induction fs arbitrary: seen) auto

text \<open>The keys that survive are those of the input that had not been seen before.\<close>

lemma dedup_keys: "dedup_key ` set (dedup seen fs) = dedup_key ` set fs - set seen"
  by (induction fs arbitrary: seen) auto

lemma dedup_distinct: "distinct (map dedup_key (dedup seen fs))"
proof (induction fs arbitrary: seen)
  case Nil
  show ?case by simp
next
  case (Cons f fs)
  show ?case
  proof (cases "dedup_key f \<in> set seen")
    case True
    then show ?thesis using Cons.IH [of seen] by simp
  next
    case False
    have "dedup_key f \<notin> dedup_key ` set (dedup (dedup_key f # seen) fs)"
      by (simp add: dedup_keys)
    then show ?thesis using False Cons.IH [of "dedup_key f # seen"] by simp
  qed
qed

subsection \<open>Sorting keeps the keys apart\<close>

lemma distinct_map_insort_key:
  "distinct (map k (insort_key f x xs)) \<longleftrightarrow> k x \<notin> k ` set xs \<and> distinct (map k xs)"
  by (induction xs) (auto simp: set_insort_key)

lemma distinct_map_sort_key: "distinct (map k (sort_key f xs)) \<longleftrightarrow> distinct (map k xs)"
  by (induction xs) (simp_all add: distinct_map_insort_key)

subsection \<open>What the order of the tuples is\<close>

lemma order_key_le_iff:
  "order_key f \<le> order_key g \<longleftrightarrow>
     file (primary f) < file (primary g)
     \<or> file (primary f) = file (primary g) \<and>
        (line (primary f) < line (primary g)
         \<or> line (primary f) = line (primary g) \<and>
            (column (primary f) < column (primary g)
             \<or> column (primary f) = column (primary g) \<and> ruleId f \<le> ruleId g))"
  by (auto simp: order_key_def less_eq_prod_def)

subsection \<open>The Diagnostic Set\<close>

text \<open>
  Nothing is filtered by severity or otherwise: every key of the input is a key of the
  output, and every finding of the output is one of the input.
\<close>

lemma aggregate_keys: "dedup_key ` set (aggregate fs) = dedup_key ` set fs"
  by (simp add: aggregate_def dedup_keys)

lemma aggregate_subset: "set (aggregate fs) \<subseteq> set fs"
  by (simp add: aggregate_def dedup_subset)

lemma aggregate_twice: "aggregate [f, f] = [f]"
  by (simp add: aggregate_def)

lemma aggregate_swaps:
  "dedup_key f \<noteq> dedup_key g \<Longrightarrow> order_key g < order_key f \<Longrightarrow> aggregate [f, g] = [g, f]"
  by (simp add: aggregate_def)

text \<open>
  Four findings, the third a repetition of the first: the repetition is dropped, the
  finding of \<open>a.cpp\<close> comes first, and of the two findings at one position the one
  with the smaller rule id comes first. The Warning stays: nothing is filtered.
\<close>

lemma aggregate_example:
  "map (\<lambda>f. (order_key f, severity f))
     (aggregate
       [\<lparr>ruleId = ''NullDereference'', severity = Error, message = ''null'',
         primary = \<lparr>file = ''b.cpp'', line = 14, column = 5, endLine = 14, endColumn = 15\<rparr>,
         related = [], enclosing_function = ''null_pointer_issue''\<rparr>,
        \<lparr>ruleId = ''DoubleFree'', severity = Error, message = ''twice'',
         primary = \<lparr>file = ''b.cpp'', line = 14, column = 5, endLine = 14, endColumn = 15\<rparr>,
         related = [], enclosing_function = ''null_pointer_issue''\<rparr>,
        \<lparr>ruleId = ''NullDereference'', severity = Error, message = ''null'',
         primary = \<lparr>file = ''b.cpp'', line = 14, column = 5, endLine = 14, endColumn = 15\<rparr>,
         related = [], enclosing_function = ''null_pointer_issue''\<rparr>,
        \<lparr>ruleId = ''UnusedVariable'', severity = Warning, message = ''unused'',
         primary = \<lparr>file = ''a.cpp'', line = 64, column = 9, endLine = 64, endColumn = 15\<rparr>,
         related = [], enclosing_function = ''unused_variable''\<rparr>])
   = [((''a.cpp'', 64, 9, ''UnusedVariable''), Warning),
      ((''b.cpp'', 14, 5, ''DoubleFree''), Error),
      ((''b.cpp'', 14, 5, ''NullDereference''), Error)]"
  by (simp add: aggregate_def dedup_key_def order_key_def less_eq_prod_def less_prod_def)

text \<open>
  Claim C5 (no-duplicate invariant). Whatever list of Findings a run of the pipeline
  hands to \<open>aggregate\<close>, no two Findings of the Diagnostic Set it returns share a dedup
  key, the key being derived from rule id, primary span and enclosing-function
  identity: the keys of the returned Findings, listed in order, are pairwise distinct.
\<close>

theorem aggregate_no_duplicate_keys: "distinct (map dedup_key (aggregate fs))"
  unfolding aggregate_def by (simp only: distinct_map_sort_key dedup_distinct)

text \<open>
  Claim C6 (ordering invariant). Whatever list of Findings a run of the pipeline hands
  to \<open>aggregate\<close>, the Diagnostic Set it returns is sorted ascending by the tuple
  (file, line, column, rule id).
\<close>

theorem aggregate_sorted: "sorted (map order_key (aggregate fs))"
  unfolding aggregate_def by (rule sorted_sort_key)

end
